theory Spec2Isabelle
  imports Complex_Main "HOL-Library.Multiset"
begin

section \<open>The master connection of bandersnatch (src/bandersnatch/master.py)\<close>

text \<open>
  A shallow embedding of class \<open>Master\<close>. Every coroutine becomes a function that
  returns its result together with the trace of what it did to the outside world:
  \<^item> an exception is a value of type \<open>error\<close>, a result is \<open>error + 'a\<close> with \<open>Inl\<close>
    the exception raised;
  \<^item> the aiohttp session and the XML-RPC client are parameters: a function from the
    requested URL to what the remote answers, and a function from endpoint, method
    name and positional arguments to what the call gives;
  \<^item> the trace lists the requests sent and the records logged at level ERROR
    (records at the levels INFO and DEBUG are not traced).
  Python's \<open>int\<close> is \<open>int\<close>, \<open>float\<close> is \<open>real\<close> (the code only tests a float for
  truth and stores it), \<open>str\<close> is \<open>string\<close>, \<open>X | None\<close> is \<open>X option\<close>.
\<close>

subsection \<open>Python built-ins\<close>

text \<open>\<open>s.startswith(p)\<close>.\<close>

definition startswith :: "string \<Rightarrow> string \<Rightarrow> bool" where
  "startswith s p = (take (length p) s = p)"

text \<open>\<open>str(n)\<close> of an integer, as an f-string formats it: decimal, a minus sign when negative.\<close>

definition digit_char :: "nat \<Rightarrow> char" where
  "digit_char d = ''0123456789'' ! d"

function str_nat :: "nat \<Rightarrow> string" where
  "str_nat n = (if n < 10 then [digit_char n] else str_nat (n div 10) @ [digit_char (n mod 10)])"
  by pat_completeness auto
termination
  by (relation "measure id") auto

declare str_nat.simps [simp del]

definition str_int :: "int \<Rightarrow> string" where
  "str_int i = (if i < 0 then CHR ''-'' # str_nat (nat (- i)) else str_nat (nat i))"

text \<open>\<open>str(x)\<close> of an \<open>int | None\<close>.\<close>

definition str_optional_int :: "int option \<Rightarrow> string" where
  "str_optional_int x = (case x of None \<Rightarrow> ''None'' | Some i \<Rightarrow> str_int i)"

text \<open>The truth value of a \<open>str | None\<close>: \<open>None\<close> and the empty string are false.\<close>

definition truthy_str :: "string option \<Rightarrow> bool" where
  "truthy_str x = (case x of None \<Rightarrow> False | Some s \<Rightarrow> s \<noteq> [])"

subsection \<open>Exceptions and the trace\<close>

text \<open>
  The exceptions that reach a caller of \<open>Master\<close>. \<open>StalePage\<close> and \<open>XmlRpcError\<close> are the
  classes of master.py, \<open>PackageNotFound\<close> is imported from \<open>.errors\<close>; the others are raised
  by Python and aiohttp. \<open>ContentTypeError\<close> is a subclass of \<open>ClientResponseError\<close>; both
  carry the HTTP status. \<open>IntValueError\<close> is the \<open>ValueError\<close> of \<open>int()\<close> on a text that is
  no integer, \<open>UnpackValueError\<close> the \<open>ValueError\<close> of unpacking a sequence of the wrong
  length, \<open>TimeoutError\<close> any instance of the built-in \<open>TimeoutError\<close>.
\<close>

datatype error =
    ValueError string
  | StalePage string
  | XmlRpcError string
  | PackageNotFound string
  | TimeoutError string
  | ClientConnectionError string
  | ClientResponseError int
  | ContentTypeError int
  | IntValueError string
  | JSONDecodeError
  | UnpackValueError
  | TypeError

datatype event =
    HttpGet string
  | XmlRpcCall string string "int list"
  | LogError string

type_synonym 'a outcome = "(error + 'a) \<times> event list"

subsection \<open>Construction\<close>

definition FIVE_HOURS_FLOAT :: real where
  "FIVE_HOURS_FLOAT = 5 * 60 * 60"

definition PYPI_SERIAL_HEADER :: string where
  "PYPI_SERIAL_HEADER = ''X-PYPI-LAST-SERIAL''"

text \<open>
  The attributes of a \<open>Master\<close> (the event loop and the session apart: the session is the
  parameter \<open>http\<close> of the operations below).
\<close>

record master =
  url :: string
  timeout :: real
  global_timeout :: real
  allow_upstream_serial_mismatch :: bool
  proxy_kwargs :: "(string \<times> string) list"
  allow_non_https :: bool

text \<open>
  The two functions of \<open>bandersnatch.config.proxy\<close> that \<open>__init__\<close> calls are not part of
  master.py; they are taken as parameters: the proxy address found in the environment (if
  any) and the keyword arguments made from a proxy address.
\<close>

record proxy_config =
  proxy_address_from_env :: "string option"
  get_aiohttp_proxy_kwargs :: "string \<Rightarrow> (string \<times> string) list"

text \<open>
  \<open>Master.__init__(url, timeout, global_timeout, proxy, allow_non_https,
  allow_upstream_serial_mismatch)\<close>. The attributes are assigned in the order of the source;
  the \<open>ValueError\<close> is raised after \<open>logger.error(err)\<close>.
\<close>

definition init ::
  "proxy_config \<Rightarrow> string \<Rightarrow> real \<Rightarrow> real option \<Rightarrow> string option \<Rightarrow> bool \<Rightarrow> bool \<Rightarrow> master outcome"
where
  "init cfg url' timeout' global_timeout' proxy allow_non_https' allow_upstream_serial_mismatch' =
     (let effective_global_timeout =
            (case global_timeout' of
               None \<Rightarrow> FIVE_HOURS_FLOAT
             | Some g \<Rightarrow> if g = 0 then FIVE_HOURS_FLOAT else g);
          proxy_url = (if truthy_str proxy then proxy else proxy_address_from_env cfg);
          kwargs = (if truthy_str proxy_url then get_aiohttp_proxy_kwargs cfg (the proxy_url) else []);
          err = ''Master URL '' @ url' @ '' is not https scheme''
      in if startswith url' ''http://'' \<and> \<not> allow_non_https'
         then (Inl (ValueError err), [LogError err])
         else (Inr \<lparr> url = url',
                     timeout = timeout',
                     global_timeout = effective_global_timeout,
                     allow_upstream_serial_mismatch = allow_upstream_serial_mismatch',
                     proxy_kwargs = kwargs,
                     allow_non_https = allow_non_https' \<rparr>, []))"

subsection \<open>The consistency guard and the guarded fetch\<close>

text \<open>
  \<open>Master.check_for_stale_cache(path, required_serial, got_serial)\<close>. \<open>not got_serial\<close> is
  true of \<open>None\<close> and of \<open>0\<close>.
\<close>

definition check_for_stale_cache :: "string \<Rightarrow> int option \<Rightarrow> int option \<Rightarrow> error + unit" where
  "check_for_stale_cache path required_serial got_serial =
     (case required_serial of
        None \<Rightarrow> Inr ()
      | Some required \<Rightarrow>
          if (case got_serial of None \<Rightarrow> True | Some got \<Rightarrow> got = 0 \<or> got < required)
          then Inl (StalePage
                 (''Expected PyPI serial '' @ str_int required @ '' for request '' @ path @ '' ''
                  @ ''but got '' @ str_optional_int got_serial @ ''. We can no longer issue a PURGE. ''
                  @ ''Report issue to PyPA Warehouse GitHub if it persists ...''))
          else Inr ())"

text \<open>
  What \<open>int(r.headers[PYPI_SERIAL_HEADER])\<close> makes of the text of the header: the integer
  it denotes, or a text that \<open>int()\<close> rejects. What \<open>r.json()\<close> makes of the body: the
  decoded document (kept as a text), a content type that is not JSON, or a body that does
  not decode.
\<close>

datatype header_int = IntOf int | NotInt string

datatype json_read = JsonDoc string | WrongContentType | NotJson

text \<open>
  A response of the remote index: its status, the serial header (\<open>None\<close> when
  \<open>PYPI_SERIAL_HEADER\<close> is not among the headers) and its body as \<open>json()\<close> reads it.
\<close>

record response =
  status :: int
  serial_header :: "header_int option"
  body :: json_read

text \<open>A request that gets no response: the connection fails or a timeout of the session expires.\<close>

datatype failure = ConnectionFailure string | Timeout string

definition raise_of :: "failure \<Rightarrow> error" where
  "raise_of f = (case f of ConnectionFailure msg \<Rightarrow> ClientConnectionError msg | Timeout msg \<Rightarrow> TimeoutError msg)"

text \<open>
  \<open>self.session.get(url)\<close> on the session that \<open>__aenter__\<close> opens with
  \<open>raise_for_status=True\<close>: a response with a status of 400 or more is raised as a
  \<open>ClientResponseError\<close> of that status.
\<close>

definition session_get :: "(string \<Rightarrow> failure + response) \<Rightarrow> string \<Rightarrow> response outcome" where
  "session_get http target =
     (case http target of
        Inl f \<Rightarrow> (Inl (raise_of f), [HttpGet target])
      | Inr r \<Rightarrow>
          if 400 \<le> status r then (Inl (ClientResponseError (status r)), [HttpGet target])
          else (Inr r, [HttpGet target]))"

text \<open>The serial observed on a response (lines 115 to 119 of master.py).\<close>

definition got_serial_of :: "response \<Rightarrow> error + int option" where
  "got_serial_of r =
     (case serial_header r of
        None \<Rightarrow> Inr None
      | Some (IntOf n) \<Rightarrow> Inr (Some n)
      | Some (NotInt text) \<Rightarrow> Inl (IntValueError text))"

text \<open>
  \<open>Master.get(path, required_serial)\<close>, called without further keyword arguments, up to
  the one response it yields. The path given to the guard is the path after the base URL
  was prepended.
\<close>

definition get :: "master \<Rightarrow> (string \<Rightarrow> failure + response) \<Rightarrow> string \<Rightarrow> int option \<Rightarrow> response outcome" where
  "get self http path required_serial =
     (let path = (if \<not> (startswith path ''https://'' \<or> startswith path ''http://'')
                  then url self @ path else path)
      in case session_get http path of
           (Inl e, trace) \<Rightarrow> (Inl e, trace)
         | (Inr r, trace) \<Rightarrow>
             (case got_serial_of r of
                Inl e \<Rightarrow> (Inl e, trace)
              | Inr got_serial \<Rightarrow>
                  (case check_for_stale_cache path required_serial got_serial of
                     Inl e \<Rightarrow> (Inl e, trace)
                   | Inr _ \<Rightarrow> (Inr r, trace))))"

text \<open>\<open>response.json()\<close>: a \<open>ContentTypeError\<close> carries the status of the response.\<close>

definition json :: "response \<Rightarrow> error + string" where
  "json r =
     (case body r of
        JsonDoc document \<Rightarrow> Inr document
      | WrongContentType \<Rightarrow> Inl (ContentTypeError (status r))
      | NotJson \<Rightarrow> Inl JSONDecodeError)"

text \<open>\<open>except aiohttp.ClientResponseError as e\<close>: the class test and \<open>e.status\<close>.\<close>

fun is_ClientResponseError :: "error \<Rightarrow> bool" where
  "is_ClientResponseError (ClientResponseError s) = True"
| "is_ClientResponseError (ContentTypeError s) = True"
| "is_ClientResponseError e = False"

fun error_status :: "error \<Rightarrow> int" where
  "error_status (ClientResponseError s) = s"
| "error_status (ContentTypeError s) = s"
| "error_status e = 0"

text \<open>\<open>Master.get_package_metadata(package_name, serial)\<close>.\<close>

definition get_package_metadata ::
  "master \<Rightarrow> (string \<Rightarrow> failure + response) \<Rightarrow> string \<Rightarrow> int \<Rightarrow> string outcome"
where
  "get_package_metadata self http package_name serial =
     (case get self http (''/pypi/'' @ package_name @ ''/json'') (Some serial) of
        (metadata_response, trace) \<Rightarrow>
          (case (case metadata_response of Inl e \<Rightarrow> Inl e | Inr r \<Rightarrow> json r) of
             Inr metadata \<Rightarrow> (Inr metadata, trace)
           | Inl e \<Rightarrow>
               if is_ClientResponseError e
               then (if error_status e = 404 then (Inl (PackageNotFound package_name), trace)
                     else (Inl e, trace))
               else (Inl e, trace)))"

subsection \<open>The remote procedures\<close>

text \<open>
  A row of the changelog, as the loop of \<open>changed_packages\<close> unpacks it:
  (package, version, time, action, serial).
\<close>

type_synonym changelog_entry = "string \<times> string \<times> int \<times> string \<times> int"

text \<open>
  What a remote procedure returns: \<open>None\<close>, a dictionary from package name to serial
  (the items in their order) or a list of changelog rows.
\<close>

datatype rpc_value =
    PyNone
  | PyDict "(string \<times> int) list"
  | PyList "changelog_entry list"

text \<open>The truth value of a result: \<open>None\<close> and the empty containers are false.\<close>

fun truthy :: "rpc_value \<Rightarrow> bool" where
  "truthy PyNone = False"
| "truthy (PyDict items) = (items \<noteq> [])"
| "truthy (PyList rows) = (rows \<noteq> [])"

definition xmlrpc_url :: "master \<Rightarrow> string" where
  "xmlrpc_url self = url self @ ''/pypi''"

text \<open>
  \<open>Master.rpc(method_name, serial)\<close>. The client is a function of the endpoint, the method
  name and the positional arguments; it gives the value returned or the exception raised.
  Only a \<open>TimeoutError\<close> is caught: it is logged, and the coroutine falls off its end, which
  returns \<open>None\<close>.
\<close>

definition rpc ::
  "master \<Rightarrow> (string \<Rightarrow> string \<Rightarrow> int list \<Rightarrow> error + rpc_value) \<Rightarrow> string \<Rightarrow> int \<Rightarrow> rpc_value outcome"
where
  "rpc self client method_name serial =
     (let args = (if serial \<noteq> 0 then [serial] else []);
          call = XmlRpcCall (xmlrpc_url self) method_name args
      in case client (xmlrpc_url self) method_name args of
           Inr result \<Rightarrow> (Inr result, [call])
         | Inl (TimeoutError te) \<Rightarrow>
             (Inr PyNone,
              [call, LogError (''Call to '' @ method_name @ '' @ '' @ xmlrpc_url self
                               @ '' timed out: '' @ te)])
         | Inl e \<Rightarrow> (Inl e, [call]))"

text \<open>\<open>Master.all_packages()\<close>.\<close>

definition all_packages ::
  "master \<Rightarrow> (string \<Rightarrow> string \<Rightarrow> int list \<Rightarrow> error + rpc_value) \<Rightarrow> rpc_value outcome"
where
  "all_packages self client =
     (case rpc self client ''list_packages_with_serial'' 0 of
        (Inl e, trace) \<Rightarrow> (Inl e, trace)
      | (Inr all_packages_with_serial, trace) \<Rightarrow>
          if \<not> truthy all_packages_with_serial
          then (Inl (XmlRpcError ''Unable to get full list of packages''), trace)
          else (Inr all_packages_with_serial, trace))"

text \<open>
  The loop of \<open>changed_packages\<close> over the rows, \<open>packages\<close> being the dictionary built so
  far; \<open>packages.get(package, 0)\<close> is 0 for a package not yet in it.
\<close>

fun changelog_loop :: "changelog_entry list \<Rightarrow> (string \<rightharpoonup> int) \<Rightarrow> (string \<rightharpoonup> int)" where
  "changelog_loop [] packages = packages"
| "changelog_loop ((package, version, time, action, serial) # rest) packages =
     changelog_loop rest
       (if serial > (case packages package of None \<Rightarrow> 0 | Some s \<Rightarrow> s)
        then packages(package \<mapsto> serial) else packages)"

text \<open>
  \<open>Master.changed_packages(last_serial)\<close>. A result that is a dictionary is iterated by
  its keys: none when it is empty; otherwise the first key, a string, is unpacked into
  the five names, which raises \<open>ValueError\<close> unless it has five characters, and then
  comparing its last character with 0 raises \<open>TypeError\<close>.
\<close>

definition changed_packages ::
  "master \<Rightarrow> (string \<Rightarrow> string \<Rightarrow> int list \<Rightarrow> error + rpc_value) \<Rightarrow> int \<Rightarrow> (string \<rightharpoonup> int) outcome"
where
  "changed_packages self client last_serial =
     (case rpc self client ''changelog_since_serial'' last_serial of
        (Inl e, trace) \<Rightarrow> (Inl e, trace)
      | (Inr changelog, trace) \<Rightarrow>
          (case changelog of
             PyNone \<Rightarrow> (Inr (changelog_loop [] Map.empty), trace)
           | PyList rows \<Rightarrow> (Inr (changelog_loop rows Map.empty), trace)
           | PyDict [] \<Rightarrow> (Inr Map.empty, trace)
           | PyDict ((key, value) # items) \<Rightarrow>
               if length key = 5 then (Inl TypeError, trace) else (Inl UnpackValueError, trace)))"

subsection \<open>Stub remotes and sample data\<close>

text \<open>
  The fixtures of the scenarios: an environment without proxy, a master for
  \<open>https://pypi.org\<close> as \<open>init\<close> builds it with the default timeouts, an XML-RPC client
  and a session that give one fixed answer, a response of status 200 that carries a
  serial, and the changelog of the happy-path scenario.
\<close>

definition no_proxy :: proxy_config where
  "no_proxy = \<lparr> proxy_address_from_env = None, get_aiohttp_proxy_kwargs = (\<lambda>address. [(''proxy'', address)]) \<rparr>"

definition pypi :: master where
  "pypi = \<lparr> url = ''https://pypi.org'', timeout = 10, global_timeout = FIVE_HOURS_FLOAT,
     allow_upstream_serial_mismatch = False, proxy_kwargs = [], allow_non_https = False \<rparr>"

definition stub_rpc :: "error + rpc_value \<Rightarrow> string \<Rightarrow> string \<Rightarrow> int list \<Rightarrow> error + rpc_value" where
  "stub_rpc answer endpoint method_name args = answer"

definition stub_http :: "failure + response \<Rightarrow> string \<Rightarrow> failure + response" where
  "stub_http answer target = answer"

definition fresh_page :: "int \<Rightarrow> response" where
  "fresh_page n = \<lparr> status = 200, serial_header = Some (IntOf n), body = JsonDoc ''{}'' \<rparr>"

definition changelog :: "changelog_entry list" where
  "changelog = [(''pkg-a'', ''1.0'', 1700000000, ''new release'', 8),
                (''pkg-a'', ''1.1'', 1700000600, ''new release'', 10),
                (''pkg-b'', ''1.0'', 1700000300, ''new release'', 6)]"

subsection \<open>The mapping of the changelog, as a specification\<close>

text \<open>
  The serials of the rows of a package, in the order of the rows. \<open>max_serial_by_package\<close>
  follows the words of the specification: every package of the changelog is mapped to the
  maximum of its serials. \<open>max_positive_serial_by_package\<close> keeps a package only when that
  maximum is positive.
\<close>

definition serials_of :: "string \<Rightarrow> changelog_entry list \<Rightarrow> int list" where
  "serials_of p rows =
     map (\<lambda>(package, version, time, action, serial). serial)
       (filter (\<lambda>(package, version, time, action, serial). package = p) rows)"

definition max_serial_by_package :: "changelog_entry list \<Rightarrow> (string \<rightharpoonup> int)" where
  "max_serial_by_package rows p =
     (if serials_of p rows = [] then None else Some (Max (set (serials_of p rows))))"

definition max_positive_serial_by_package :: "changelog_entry list \<Rightarrow> (string \<rightharpoonup> int)" where
  "max_positive_serial_by_package rows p =
     (if serials_of p rows \<noteq> [] \<and> 0 < Max (set (serials_of p rows))
      then Some (Max (set (serials_of p rows))) else None)"

subsection \<open>An unencrypted base URL, as a specification\<close>



section \<open>Properties\<close>

subsection \<open>Auxiliary facts\<close>

lemma str_int_0: "str_int 0 = ''0''"
  by (simp add: str_int_def str_nat.simps digit_char_def)

lemma get_unfold:
  "get self http path required_serial =
     (let target = (if startswith path ''https://'' \<or> startswith path ''http://'' then path else url self @ path)
      in (case http target of
            Inl f \<Rightarrow> Inl (raise_of f)
          | Inr r \<Rightarrow>
              if 400 \<le> status r then Inl (ClientResponseError (status r))
              else (case got_serial_of r of
                      Inl e \<Rightarrow> Inl e
                    | Inr got_serial \<Rightarrow>
                        (case check_for_stale_cache target required_serial got_serial of
                           Inl e \<Rightarrow> Inl e
                         | Inr u \<Rightarrow> Inr r)),
          [HttpGet target]))"
  by (auto simp: get_def session_get_def Let_def split: sum.splits)

lemma metadata_path_relative:
  "\<not> (startswith (''/pypi/'' @ name @ ''/json'') ''https://'' \<or> startswith (''/pypi/'' @ name @ ''/json'') ''http://'')"
  by (simp add: startswith_def)

lemma not_timeout_raise_of: "is_ClientResponseError (raise_of f) = False"
  by (cases f) (simp_all add: raise_of_def)

lemma check_not_response_error:
  "check_for_stale_cache p q g = Inl e \<Longrightarrow> \<not> is_ClientResponseError e"
  by (auto simp: check_for_stale_cache_def split: option.splits if_splits)

lemma got_serial_not_response_error:
  "got_serial_of r = Inl e \<Longrightarrow> \<not> is_ClientResponseError e"
  by (auto simp: got_serial_of_def split: option.splits header_int.splits)

lemma get_error_cases:
  assumes "fst (get self http path q) = Inl e" and "is_ClientResponseError e"
  shows "\<exists>r. http (if startswith path ''https://'' \<or> startswith path ''http://'' then path else url self @ path) = Inr r
           \<and> 400 \<le> status r \<and> e = ClientResponseError (status r)"
  using assms
  by (auto simp: get_unfold Let_def not_timeout_raise_of
           split: sum.splits if_splits dest: check_not_response_error got_serial_not_response_error)

lemma get_ok_status:
  "fst (get self http path q) = Inr r \<Longrightarrow> status r < 400"
  by (auto simp: get_unfold Let_def split: sum.splits if_splits)

lemma json_error_cases:
  "json r = Inl e \<Longrightarrow> is_ClientResponseError e \<Longrightarrow> e = ContentTypeError (status r)"
  by (auto simp: json_def split: json_read.splits)

lemma get_package_metadata_fst:
  "fst (get_package_metadata self http name serial) =
     (case (case fst (get self http (''/pypi/'' @ name @ ''/json'') (Some serial)) of
              Inl e \<Rightarrow> Inl e | Inr r \<Rightarrow> json r) of
        Inr metadata \<Rightarrow> Inr metadata
      | Inl e \<Rightarrow>
          if is_ClientResponseError e
          then (if error_status e = 404 then Inl (PackageNotFound name) else Inl e)
          else Inl e)"
  by (simp add: get_package_metadata_def split: prod.splits sum.splits)

lemma get_relative:
  assumes "\<not> (startswith p ''https://'' \<or> startswith p ''http://'')"
  shows "fst (get self http p q) =
           (case http (url self @ p) of
              Inl f \<Rightarrow> Inl (raise_of f)
            | Inr r \<Rightarrow>
                if 400 \<le> status r then Inl (ClientResponseError (status r))
                else (case got_serial_of r of
                        Inl e \<Rightarrow> Inl e
                      | Inr got_serial \<Rightarrow>
                          (case check_for_stale_cache (url self @ p) q got_serial of
                             Inl e \<Rightarrow> Inl e
                           | Inr u \<Rightarrow> Inr r)))"
  using assms by (simp add: get_unfold Let_def)

lemma raise_of_not_found: "raise_of f \<noteq> PackageNotFound n"
  by (cases f) (simp_all add: raise_of_def)

lemma check_not_found: "check_for_stale_cache t q g \<noteq> Inl (PackageNotFound n)"
  by (simp add: check_for_stale_cache_def split: option.splits)

lemma got_serial_not_found: "got_serial_of r \<noteq> Inl (PackageNotFound n)"
  by (simp add: got_serial_of_def split: option.splits header_int.splits)

lemma json_not_found: "json r \<noteq> Inl (PackageNotFound n)"
  by (simp add: json_def split: json_read.splits)

lemma serials_of_Cons:
  "serials_of p ((package, version, time, action, serial) # rows) =
     (if package = p then serial # serials_of p rows else serials_of p rows)"
  by (simp add: serials_of_def)

lemma set_serials_of:
  "set (serials_of p rows) = {serial. \<exists>version time action. (p, version, time, action, serial) \<in> set rows}"
  by (induction rows) (auto simp: serials_of_def)

lemma fold_max_ge: "(g::int) \<le> fold max ss g"
  by (induction ss arbitrary: g) (auto intro: order_trans [OF max.cobounded2])

lemma changelog_loop_at:
  "changelog_loop rows packages p =
     (let g = (case packages p of None \<Rightarrow> 0 | Some s \<Rightarrow> s);
          m = fold max (serials_of p rows) g
      in if g < m then Some m else packages p)"
proof (induction rows arbitrary: packages)
  case Nil
  then show ?case by (simp add: serials_of_def)
next
  case (Cons row rows)
  obtain package version time action serial where row: "row = (package, version, time, action, serial)"
    by (cases row)
  define g where "g = (case packages p of None \<Rightarrow> 0 | Some s \<Rightarrow> s)"
  show ?case
  proof (cases "package = p")
    case False
    then show ?thesis
      by (simp add: row Cons.IH serials_of_Cons Let_def)
  next
    case True
    have step: "fold max (serials_of p (row # rows)) g = fold max (serials_of p rows) (max serial g)"
      using True by (simp add: row serials_of_Cons)
    show ?thesis
    proof (cases "g < serial")
      case less: True
      let ?m = "fold max (serials_of p rows) serial"
      have ge: "serial \<le> ?m" by (rule fold_max_ge)
      have "max serial g = serial" using less by simp
      with step have m: "fold max (serials_of p (row # rows)) g = ?m" by simp
      have lhs: "changelog_loop (row # rows) packages p = (if serial < ?m then Some ?m else Some serial)"
        using less True unfolding g_def by (simp add: row Cons.IH Let_def)
      have "g < ?m" using less ge by simp
      then have rhs: "(let g = (case packages p of None \<Rightarrow> 0 | Some s \<Rightarrow> s);
                           m = fold max (serials_of p (row # rows)) g
                       in if g < m then Some m else packages p) = Some ?m"
        unfolding g_def [symmetric] Let_def m by simp
      from ge have "(if serial < ?m then Some ?m else Some serial) = Some ?m" by auto
      with lhs rhs show ?thesis by simp
    next
      case False
      then have "max serial g = g" by simp
      moreover have "changelog_loop (row # rows) packages p = changelog_loop rows packages p"
        using False True unfolding g_def by (simp add: row)
      ultimately show ?thesis
        using step unfolding g_def [symmetric] by (simp add: Cons.IH Let_def g_def)
    qed
  qed
qed

lemma changelog_loop_empty:
  "changelog_loop rows Map.empty = max_positive_serial_by_package rows"
proof
  fix p
  show "changelog_loop rows Map.empty p = max_positive_serial_by_package rows p"
  proof (cases "serials_of p rows")
    case Nil
    then show ?thesis by (simp add: changelog_loop_at max_positive_serial_by_package_def)
  next
    case (Cons s ss)
    have "fold max (serials_of p rows) 0 = Max (set (0 # serials_of p rows))"
      by (simp only: Max.set_eq_fold)
    also have "\<dots> = max 0 (Max (set (serials_of p rows)))"
      using Cons by simp
    finally show ?thesis
      using Cons by (auto simp: changelog_loop_at max_positive_serial_by_package_def Let_def max_def)
  qed
qed

lemma max_positive_serial_dominated:
  assumes "mset rows' = mset rows + mset extra"
    and "\<forall>(package, version, time, action, serial) \<in> set extra.
           \<exists>(package', version', time', action', serial') \<in> set rows. package' = package \<and> serial < serial'"
  shows "max_positive_serial_by_package rows' = max_positive_serial_by_package rows"
proof
  fix p
  let ?S = "set (serials_of p rows)" and ?E = "set (serials_of p extra)"
  have "set rows' = set rows \<union> set extra"
    using assms(1) by (metis set_mset_mset set_mset_union)
  then have u: "set (serials_of p rows') = ?S \<union> ?E"
    by (auto simp: set_serials_of)
  have dom: "\<exists>s' \<in> ?S. s < s'" if "s \<in> ?E" for s
    using that assms(2) by (fastforce simp: set_serials_of)
  show "max_positive_serial_by_package rows' p = max_positive_serial_by_package rows p"
  proof (cases "?S = {}")
    case True
    have "?E = {}"
    proof (rule equals0I)
      fix s assume "s \<in> ?E"
      from dom [OF this] True show False by simp
    qed
    with True u show ?thesis by (simp add: max_positive_serial_by_package_def)
  next
    case False
    have "Max (?S \<union> ?E) = Max ?S"
    proof (rule antisym)
      show "Max ?S \<le> Max (?S \<union> ?E)" using False by (intro Max_mono) auto
      show "Max (?S \<union> ?E) \<le> Max ?S"
      proof (rule Max.boundedI)
        fix a assume "a \<in> ?S \<union> ?E"
        then show "a \<le> Max ?S"
        proof
          assume "a \<in> ?E"
          from dom [OF this] obtain s' where "s' \<in> ?S" "a < s'" by blast
          then show ?thesis by (meson List.finite_set Max_ge less_le_trans less_imp_le order_trans)
        qed simp
      qed (use False in auto)
    qed
    moreover have "serials_of p rows \<noteq> []" "serials_of p rows' \<noteq> []"
      using False u by (auto simp flip: set_empty)
    ultimately show ?thesis
      using u by (simp add: max_positive_serial_by_package_def)
  qed
qed

subsection \<open>The consistency guard\<close>

text \<open>
  Claim C1, amended. Take a guarded fetch whose request is answered by a response \<open>r\<close> with
  a status below 400 and a serial header that is absent or an integer, \<open>observed\<close> being the
  serial read from it. The fetch succeeds, and then yields \<open>r\<close>, if and only if the required
  serial is \<open>None\<close>, or a serial is observed that is not 0 and is at least the required one.
  Otherwise it raises \<open>StalePage\<close> with a message that names the required serial, the
  requested URL and the observed serial (\<open>None\<close> when there is none), and no response is
  returned.
\<close>

theorem get_succeeds_iff:
  assumes "target = (if startswith path ''https://'' \<or> startswith path ''http://'' then path else url self @ path)"
    and "http target = Inr r" and "status r < 400" and "got_serial_of r = Inr observed"
  shows "((\<exists>resp. fst (get self http path required) = Inr resp) \<longleftrightarrow>
            (required = None \<or> (\<exists>req got. required = Some req \<and> observed = Some got \<and> got \<noteq> 0 \<and> req \<le> got)))
         \<and> (\<forall>resp. fst (get self http path required) = Inr resp \<longrightarrow> resp = r)
         \<and> (\<forall>req. required = Some req \<and> \<not> (\<exists>got. observed = Some got \<and> got \<noteq> 0 \<and> req \<le> got) \<longrightarrow>
              fst (get self http path required) =
                Inl (StalePage (''Expected PyPI serial '' @ str_int req @ '' for request '' @ target
                       @ '' but got '' @ str_optional_int observed
                       @ ''. We can no longer issue a PURGE. Report issue to PyPA Warehouse GitHub if it persists ...'')))"
proof -
  have g: "fst (get self http path q) =
             (case check_for_stale_cache target q observed of Inl e \<Rightarrow> Inl e | Inr u \<Rightarrow> Inr r)" for q
    using assms by (simp add: get_unfold Let_def)
  show ?thesis
  proof (cases required)
    case None
    then show ?thesis by (simp add: g check_for_stale_cache_def)
  next
    case (Some R)
    show ?thesis
    proof (cases observed)
      case None
      with Some show ?thesis by (simp add: g check_for_stale_cache_def)
    next
      case (Some got)
      with \<open>required = Some R\<close> show ?thesis
        by (auto simp: g check_for_stale_cache_def)
    qed
  qed
qed

theorem get_succeeds_iff_witness:
  "fst (get pypi (stub_http (Inr (fresh_page 7))) ''/pypi/pkg-a/json'' (Some 10))
     = Inl (StalePage ''Expected PyPI serial 10 for request https://pypi.org/pypi/pkg-a/json but got 7. We can no longer issue a PURGE. Report issue to PyPA Warehouse GitHub if it persists ...'')
   \<and> (\<exists>resp. fst (get pypi (stub_http (Inr (fresh_page 12))) ''/pypi/pkg-a/json'' (Some 10)) = Inr resp)
   \<and> (\<exists>resp. fst (get pypi (stub_http (Inr (fresh_page 7))) ''/pypi/pkg-a/json'' None) = Inr resp)"
proof -
  have t: "''https://pypi.org/pypi/pkg-a/json'' =
             (if startswith ''/pypi/pkg-a/json'' ''https://'' \<or> startswith ''/pypi/pkg-a/json'' ''http://''
              then ''/pypi/pkg-a/json'' else url pypi @ ''/pypi/pkg-a/json'')"
    by (simp add: startswith_def pypi_def)
  have s: "stub_http (Inr (fresh_page n)) ''https://pypi.org/pypi/pkg-a/json'' = Inr (fresh_page n)"
    "status (fresh_page n) < 400" "got_serial_of (fresh_page n) = Inr (Some n)" for n
    by (simp_all add: stub_http_def fresh_page_def got_serial_of_def)
  have d: "str_int 10 = ''10''" "str_int 7 = ''7''"
    by (simp_all add: str_int_def str_nat.simps digit_char_def)
  note inst = get_succeeds_iff [where self = pypi and path = "''/pypi/pkg-a/json''"
      and target = "''https://pypi.org/pypi/pkg-a/json''"]
  from inst [where http = "stub_http (Inr (fresh_page 7))" and r = "fresh_page 7"
              and observed = "Some 7" and required = "Some 10", OF t s(1) s(2) s(3)]
       inst [where http = "stub_http (Inr (fresh_page 12))" and r = "fresh_page 12"
              and observed = "Some 12" and required = "Some 10", OF t s(1) s(2) s(3)]
       inst [where http = "stub_http (Inr (fresh_page 7))" and r = "fresh_page 7"
              and observed = "Some 7" and required = None, OF t s(1) s(2) s(3)]
  show ?thesis by (simp add: d str_optional_int_def)
qed

text \<open>
  The claim as the specification words it (success whenever a serial is observed that is
  at least the required one) fails for the required serial 0 and the observed serial 0:
  the fetch raises \<open>StalePage\<close>.
\<close>

theorem get_zero_serial_rejected:
  "fst (get pypi (stub_http (Inr (fresh_page 0))) ''/pypi/pkg-a/json'' (Some 0))
     = Inl (StalePage ''Expected PyPI serial 0 for request https://pypi.org/pypi/pkg-a/json but got 0. We can no longer issue a PURGE. Report issue to PyPA Warehouse GitHub if it persists ...'')
   \<and> got_serial_of (fresh_page 0) = Inr (Some 0) \<and> (0::int) \<le> 0"
  by (simp add: get_unfold Let_def startswith_def pypi_def stub_http_def fresh_page_def got_serial_of_def
      check_for_stale_cache_def str_int_0 str_optional_int_def)

text \<open>
  Claim C9. For the required serial 0, a response whose serial header is absent or reads 0
  is rejected as stale: by the guard itself, by \<open>get\<close> on any path, and by
  \<open>get_package_metadata\<close> called with the serial 0, which lets the \<open>StalePage\<close> pass.
\<close>

theorem required_zero_rejects_zero:
  assumes "got_serial_of r = Inr observed" and "observed = None \<or> observed = Some 0" and "status r < 400"
  shows "check_for_stale_cache target (Some 0) observed =
           Inl (StalePage (''Expected PyPI serial 0 for request '' @ target @ '' but got ''
                  @ str_optional_int observed
                  @ ''. We can no longer issue a PURGE. Report issue to PyPA Warehouse GitHub if it persists ...''))
         \<and> (http (if startswith path ''https://'' \<or> startswith path ''http://'' then path else url self @ path) = Inr r
              \<longrightarrow> fst (get self http path (Some 0)) =
                Inl (StalePage (''Expected PyPI serial 0 for request ''
                  @ (if startswith path ''https://'' \<or> startswith path ''http://'' then path else url self @ path)
                  @ '' but got '' @ str_optional_int observed
                  @ ''. We can no longer issue a PURGE. Report issue to PyPA Warehouse GitHub if it persists ...'')))
         \<and> (http (url self @ ''/pypi/'' @ name @ ''/json'') = Inr r
              \<longrightarrow> fst (get_package_metadata self http name 0) =
                Inl (StalePage (''Expected PyPI serial 0 for request '' @ url self @ ''/pypi/'' @ name @ ''/json''
                  @ '' but got '' @ str_optional_int observed
                  @ ''. We can no longer issue a PURGE. Report issue to PyPA Warehouse GitHub if it persists ...'')))"
proof -
  have c: "check_for_stale_cache t (Some 0) observed =
           Inl (StalePage (''Expected PyPI serial 0 for request '' @ t @ '' but got ''
                  @ str_optional_int observed
                  @ ''. We can no longer issue a PURGE. Report issue to PyPA Warehouse GitHub if it persists ...''))" for t
    using assms(2) by (auto simp: check_for_stale_cache_def str_int_0)
  have g: "fst (get self http path (Some 0)) =
             (case check_for_stale_cache t (Some 0) observed of Inl e \<Rightarrow> Inl e | Inr u \<Rightarrow> Inr r)"
    if "t = (if startswith path ''https://'' \<or> startswith path ''http://'' then path else url self @ path)"
      and "http t = Inr r" for t path
    using that assms by (simp add: get_unfold Let_def)
  have m: "fst (get_package_metadata self http name 0) =
             Inl (StalePage (''Expected PyPI serial 0 for request '' @ url self @ ''/pypi/'' @ name @ ''/json''
                  @ '' but got '' @ str_optional_int observed
                  @ ''. We can no longer issue a PURGE. Report issue to PyPA Warehouse GitHub if it persists ...''))"
    if h: "http (url self @ ''/pypi/'' @ name @ ''/json'') = Inr r"
  proof -
    have "fst (get self http (''/pypi/'' @ name @ ''/json'') (Some 0)) =
            (case check_for_stale_cache (url self @ ''/pypi/'' @ name @ ''/json'') (Some 0) observed
             of Inl e \<Rightarrow> Inl e | Inr u \<Rightarrow> Inr r)"
      using g [of "url self @ ''/pypi/'' @ name @ ''/json''" "''/pypi/'' @ name @ ''/json''"]
        metadata_path_relative [of name] h by simp
    then show ?thesis
      by (simp add: c get_package_metadata_fst)
  qed
  show ?thesis
    using c [of target] g [OF refl] m by (simp add: c)
qed

theorem required_zero_rejects_zero_witness:
  "fst (get pypi (stub_http (Inr (fresh_page 0))) ''/simple/pkg-a/'' (Some 0))
     = Inl (StalePage ''Expected PyPI serial 0 for request https://pypi.org/simple/pkg-a/ but got 0. We can no longer issue a PURGE. Report issue to PyPA Warehouse GitHub if it persists ...'')
   \<and> fst (get_package_metadata pypi (stub_http (Inr (fresh_page 0))) ''pkg-a'' 0)
     = Inl (StalePage ''Expected PyPI serial 0 for request https://pypi.org/pypi/pkg-a/json but got 0. We can no longer issue a PURGE. Report issue to PyPA Warehouse GitHub if it persists ...'')
   \<and> fst (get_package_metadata pypi (stub_http (Inr ((fresh_page 0)\<lparr>serial_header := None\<rparr>))) ''pkg-a'' 0)
     = Inl (StalePage ''Expected PyPI serial 0 for request https://pypi.org/pypi/pkg-a/json but got None. We can no longer issue a PURGE. Report issue to PyPA Warehouse GitHub if it persists ...'')"
proof -
  have a: "got_serial_of (fresh_page 0) = Inr (Some 0)" "status (fresh_page 0) < 400"
    "got_serial_of ((fresh_page 0)\<lparr>serial_header := None\<rparr>) = Inr None"
    "status ((fresh_page 0)\<lparr>serial_header := None\<rparr>) < 400"
    by (simp_all add: fresh_page_def got_serial_of_def)
  from required_zero_rejects_zero [OF a(1) _ a(2), where http = "stub_http (Inr (fresh_page 0))"
         and self = pypi and path = "''/simple/pkg-a/''" and name = "''pkg-a''"]
       required_zero_rejects_zero [OF a(3) _ a(4), where http = "stub_http (Inr ((fresh_page 0)\<lparr>serial_header := None\<rparr>))"
         and self = pypi and path = "''/simple/pkg-a/''" and name = "''pkg-a''"]
  show ?thesis
    by (simp add: stub_http_def startswith_def pypi_def str_optional_int_def str_int_0)
qed

text \<open>
  Claim C10. A path that starts with neither \<open>https://\<close> nor \<open>http://\<close> is requested at the
  base URL followed by the path; a path that starts with one of them is requested as it
  is. In both cases a response that \<open>get\<close> yields is the answer of the remote at that URL.
\<close>

theorem get_request_url:
  "(\<not> (startswith path ''https://'' \<or> startswith path ''http://'')
      \<longrightarrow> snd (get self http path required_serial) = [HttpGet (url self @ path)]
        \<and> (\<forall>r. fst (get self http path required_serial) = Inr r \<longrightarrow> http (url self @ path) = Inr r))
   \<and> (startswith path ''https://'' \<or> startswith path ''http://''
      \<longrightarrow> snd (get self http path required_serial) = [HttpGet path]
        \<and> (\<forall>r. fst (get self http path required_serial) = Inr r \<longrightarrow> http path = Inr r))"
  by (auto simp: get_unfold Let_def split: sum.splits if_splits)

theorem get_request_url_witness:
  "\<not> (startswith ''/simple/'' ''https://'' \<or> startswith ''/simple/'' ''http://'')
   \<and> snd (get pypi (stub_http (Inr (fresh_page 12))) ''/simple/'' None) = [HttpGet ''https://pypi.org/simple/'']
   \<and> startswith ''http://files.example/a.json'' ''http://''
   \<and> snd (get pypi (stub_http (Inr (fresh_page 12))) ''http://files.example/a.json'' None)
       = [HttpGet ''http://files.example/a.json'']
   \<and> startswith ''https://files.example/a.json'' ''https://''
   \<and> snd (get pypi (stub_http (Inr (fresh_page 12))) ''https://files.example/a.json'' None)
       = [HttpGet ''https://files.example/a.json'']"
  using get_request_url [of "''/simple/''" pypi "stub_http (Inr (fresh_page 12))" None]
        get_request_url [of "''http://files.example/a.json''" pypi "stub_http (Inr (fresh_page 12))" None]
        get_request_url [of "''https://files.example/a.json''" pypi "stub_http (Inr (fresh_page 12))" None]
  by (simp add: startswith_def pypi_def)

subsection \<open>Package metadata\<close>

text \<open>
  Claim C5. \<open>get_package_metadata\<close> raises \<open>PackageNotFound\<close> exactly when the remote answers the
  request for the metadata of the package with the status 404, and the exception then
  carries the requested name. A response with another status of 400 or more is raised as
  the \<open>ClientResponseError\<close> of that status; every other exception of the guarded fetch, and
  every exception of decoding the body, reaches the caller as it was raised.
\<close>

theorem get_package_metadata_not_found:
  "((fst (get_package_metadata self http name serial) = Inl (PackageNotFound missing)) \<longleftrightarrow>
      (missing = name \<and> (\<exists>r. http (url self @ ''/pypi/'' @ name @ ''/json'') = Inr r \<and> status r = 404)))
   \<and> (\<forall>r. http (url self @ ''/pypi/'' @ name @ ''/json'') = Inr r \<and> 400 \<le> status r \<and> status r \<noteq> 404
        \<longrightarrow> fst (get_package_metadata self http name serial) = Inl (ClientResponseError (status r)))
   \<and> (\<forall>e. fst (get self http (''/pypi/'' @ name @ ''/json'') (Some serial)) = Inl e
          \<and> e \<noteq> ClientResponseError 404
        \<longrightarrow> fst (get_package_metadata self http name serial) = Inl e)
   \<and> (\<forall>r e. fst (get self http (''/pypi/'' @ name @ ''/json'') (Some serial)) = Inr r \<and> json r = Inl e
        \<longrightarrow> fst (get_package_metadata self http name serial) = Inl e)"
proof -
  define p where "p = ''/pypi/'' @ name @ ''/json''"
  define got where "got = fst (get self http p (Some serial))"
  define meta where "meta = fst (get_package_metadata self http name serial)"
  have rel: "\<not> (startswith p ''https://'' \<or> startswith p ''http://'')"
    unfolding p_def by (rule metadata_path_relative)
  note fetched = get_relative [OF rel, of self http "Some serial", folded got_def]
  have meta: "meta =
     (case (case got of Inl e \<Rightarrow> Inl e | Inr r \<Rightarrow> json r) of
        Inr metadata \<Rightarrow> Inr metadata
      | Inl e \<Rightarrow>
          if is_ClientResponseError e
          then (if error_status e = 404 then Inl (PackageNotFound name) else Inl e)
          else Inl e)"
    unfolding meta_def got_def p_def by (rule get_package_metadata_fst)
  have raised: "meta = (if e = ClientResponseError 404 then Inl (PackageNotFound name) else Inl e)"
    if "got = Inl e" for e
  proof (cases "is_ClientResponseError e")
    case True
    from get_error_cases [OF that [unfolded got_def] True]
    have "\<exists>s. e = ClientResponseError s" by (elim exE conjE) (rule exI)
    then obtain s where "e = ClientResponseError s" ..
    with that show ?thesis by (simp add: meta)
  next
    case False
    then have "e \<noteq> ClientResponseError 404" by auto
    with that False show ?thesis by (simp add: meta)
  qed
  have decoded: "meta = json r" if "got = Inr r" for r
  proof (cases "json r")
    case (Inr document)
    with that show ?thesis by (simp add: meta)
  next
    case (Inl e)
    have "error_status e \<noteq> 404" if "is_ClientResponseError e"
      using json_error_cases [OF Inl that] get_ok_status [OF \<open>got = Inr r\<close> [unfolded got_def]] by simp
    with Inl \<open>got = Inr r\<close> show ?thesis by (simp add: meta)
  qed
  have first: "(meta = Inl (PackageNotFound missing)) \<longleftrightarrow>
      (missing = name \<and> (\<exists>r. http (url self @ p) = Inr r \<and> status r = 404))"
  proof (cases got)
    case (Inr r)
    then have "http (url self @ p) = Inr r" "status r < 400"
      using fetched by (auto split: sum.splits if_splits)
    with decoded [OF Inr] json_not_found show ?thesis by auto
  next
    case (Inl e)
    show ?thesis
    proof (cases "e = ClientResponseError 404")
      case True
      with Inl fetched
      have "\<exists>r. http (url self @ p) = Inr r \<and> status r = 404"
        by (auto simp: raise_of_def check_for_stale_cache_def got_serial_of_def
                 split: sum.splits if_splits failure.splits option.splits header_int.splits)
      with raised [OF Inl] True show ?thesis by auto
    next
      case False
      have "\<not> (\<exists>r. http (url self @ p) = Inr r \<and> status r = 404)"
        using Inl False fetched by (auto split: sum.splits if_splits)
      moreover have "e \<noteq> PackageNotFound missing"
        using Inl fetched raise_of_not_found check_not_found got_serial_not_found
        by (auto split: sum.splits if_splits)
      ultimately show ?thesis using raised [OF Inl] False by auto
    qed
  qed
  have second: "meta = Inl (ClientResponseError (status r))"
    if "http (url self @ p) = Inr r" "400 \<le> status r" "status r \<noteq> 404" for r
  proof -
    from that fetched have "got = Inl (ClientResponseError (status r))" by simp
    from raised [OF this] that show ?thesis by simp
  qed
  have third: "meta = Inl e" if "got = Inl e \<and> e \<noteq> ClientResponseError 404" for e
    using raised [of e] that by simp
  have fourth: "meta = Inl e" if "got = Inr r \<and> json r = Inl e" for r e
    using decoded [of r] that by simp
  from first second third fourth show ?thesis
    unfolding meta_def got_def p_def by blast
qed

theorem get_package_metadata_not_found_witness:
  "fst (get_package_metadata pypi (stub_http (Inr \<lparr> status = 404, serial_header = None, body = WrongContentType \<rparr>))
          ''does-not-exist'' 0)
     = Inl (PackageNotFound ''does-not-exist'')
   \<and> fst (get_package_metadata pypi (stub_http (Inr \<lparr> status = 503, serial_header = None, body = WrongContentType \<rparr>))
          ''pkg-a'' 0)
     = Inl (ClientResponseError 503)"
  using get_package_metadata_not_found [of pypi "stub_http (Inr \<lparr> status = 404, serial_header = None, body = WrongContentType \<rparr>)"
          "''does-not-exist''" 0 "''does-not-exist''"]
        get_package_metadata_not_found [of pypi "stub_http (Inr \<lparr> status = 503, serial_header = None, body = WrongContentType \<rparr>)"
          "''pkg-a''" 0 "''pkg-a''"]
  by (simp add: stub_http_def)

subsection \<open>Construction\<close>




text \<open>
  Claim C7, amended. A master that is constructed has the global timeout of five hours when
  the argument is \<open>None\<close> or 0, and the argument itself when it is any other number,
  positive or negative.
\<close>

theorem init_global_timeout:
  "fst (init cfg u t g p a m) = Inr self \<Longrightarrow>
     (g = None \<or> g = Some 0 \<longrightarrow> global_timeout self = 5 * 60 * 60)
     \<and> (\<forall>x. g = Some x \<and> x \<noteq> 0 \<longrightarrow> global_timeout self = x)"
  by (auto simp: init_def Let_def FIVE_HOURS_FLOAT_def split: if_splits)

theorem init_global_timeout_witness:
  "fst (init no_proxy ''https://pypi.org'' 10 None None False False) = Inr pypi
   \<and> global_timeout pypi = 5 * 60 * 60
   \<and> fst (init no_proxy ''https://pypi.org'' 10 (Some 0) None False False) = Inr pypi
   \<and> fst (init no_proxy ''https://pypi.org'' 10 (Some 30) None False False) = Inr (pypi\<lparr>global_timeout := 30\<rparr>)
   \<and> global_timeout (pypi\<lparr>global_timeout := 30\<rparr>) = 30"
proof -
  have a: "fst (init no_proxy ''https://pypi.org'' 10 None None False False) = Inr pypi"
    by (simp add: init_def Let_def pypi_def no_proxy_def startswith_def truthy_str_def)
  have b: "fst (init no_proxy ''https://pypi.org'' 10 (Some 0) None False False) = Inr pypi"
    by (simp add: init_def Let_def pypi_def no_proxy_def startswith_def truthy_str_def)
  have c: "fst (init no_proxy ''https://pypi.org'' 10 (Some 30) None False False) = Inr (pypi\<lparr>global_timeout := 30\<rparr>)"
    by (simp add: init_def Let_def pypi_def no_proxy_def startswith_def truthy_str_def)
  from init_global_timeout [OF a] init_global_timeout [OF c] a b c show ?thesis by simp
qed

text \<open>
  The claim as the specification words it (five hours for every argument that is not
  positive) fails for the argument -1, which is kept.
\<close>

theorem init_negative_global_timeout:
  "fst (init no_proxy ''https://pypi.org'' 10 (Some (- 1)) None False False)
     = Inr (pypi\<lparr>global_timeout := - 1\<rparr>)
   \<and> global_timeout (pypi\<lparr>global_timeout := - 1\<rparr>) = - 1
   \<and> (- 1 :: real) \<le> 0 \<and> (- 1 :: real) \<noteq> 5 * 60 * 60"
  by (simp add: init_def Let_def pypi_def no_proxy_def startswith_def truthy_str_def)

subsection \<open>The remote procedures\<close>

text \<open>
  Claim C8. \<open>rpc\<close> catches a \<open>TimeoutError\<close> only. When the call times out, the result is
  \<open>None\<close>, the error is logged, and the result is that of a call the remote answers with
  \<open>None\<close>. Every other exception of the call is raised to the caller, and a value the call
  returns is returned.
\<close>

theorem rpc_timeout:
  "(\<forall>te. client (xmlrpc_url self) method_name (if serial \<noteq> 0 then [serial] else []) = Inl (TimeoutError te)
      \<longrightarrow> fst (rpc self client method_name serial) = Inr PyNone
        \<and> LogError (''Call to '' @ method_name @ '' @ '' @ xmlrpc_url self @ '' timed out: '' @ te)
            \<in> set (snd (rpc self client method_name serial))
        \<and> fst (rpc self client method_name serial)
            = fst (rpc self (\<lambda>endpoint name args. Inr PyNone) method_name serial))
   \<and> (\<forall>e. client (xmlrpc_url self) method_name (if serial \<noteq> 0 then [serial] else []) = Inl e
        \<and> (\<forall>te. e \<noteq> TimeoutError te)
      \<longrightarrow> fst (rpc self client method_name serial) = Inl e)
   \<and> (\<forall>v. client (xmlrpc_url self) method_name (if serial \<noteq> 0 then [serial] else []) = Inr v
      \<longrightarrow> fst (rpc self client method_name serial) = Inr v)"
  by (auto simp: rpc_def Let_def split: sum.splits error.splits)

theorem rpc_timeout_witness:
  "rpc pypi (stub_rpc (Inl (TimeoutError ''deadline''))) ''changelog_since_serial'' 5
     = (Inr PyNone, [XmlRpcCall ''https://pypi.org/pypi'' ''changelog_since_serial'' [5],
          LogError ''Call to changelog_since_serial @ https://pypi.org/pypi timed out: deadline''])
   \<and> fst (rpc pypi (stub_rpc (Inl (TimeoutError ''deadline''))) ''changelog_since_serial'' 5)
     = fst (rpc pypi (stub_rpc (Inr PyNone)) ''changelog_since_serial'' 5)
   \<and> fst (rpc pypi (stub_rpc (Inl (ClientConnectionError ''refused''))) ''changelog_since_serial'' 5)
     = Inl (ClientConnectionError ''refused'')
   \<and> fst (rpc pypi (stub_rpc (Inr (PyList []))) ''changelog_since_serial'' 5) = Inr (PyList [])"
  using rpc_timeout [of "stub_rpc (Inl (TimeoutError ''deadline''))" pypi "''changelog_since_serial''" 5]
        rpc_timeout [of "stub_rpc (Inl (ClientConnectionError ''refused''))" pypi "''changelog_since_serial''" 5]
        rpc_timeout [of "stub_rpc (Inr (PyList []))" pypi "''changelog_since_serial''" 5]
  by (simp add: stub_rpc_def rpc_def xmlrpc_url_def pypi_def)

text \<open>
  Claim C3. When the remote answers the listing of all packages with \<open>None\<close> or with an
  empty container, or when the call times out, \<open>all_packages\<close> raises \<open>XmlRpcError\<close>; it never
  returns \<open>None\<close> or an empty container.
\<close>

theorem all_packages_empty:
  "(\<forall>v. client (xmlrpc_url self) ''list_packages_with_serial'' [] = Inr v
        \<and> (v = PyNone \<or> v = PyDict [] \<or> v = PyList [])
      \<longrightarrow> fst (all_packages self client) = Inl (XmlRpcError ''Unable to get full list of packages''))
   \<and> (\<forall>te. client (xmlrpc_url self) ''list_packages_with_serial'' [] = Inl (TimeoutError te)
      \<longrightarrow> fst (all_packages self client) = Inl (XmlRpcError ''Unable to get full list of packages''))
   \<and> fst (all_packages self client) \<noteq> Inr PyNone
   \<and> fst (all_packages self client) \<noteq> Inr (PyDict [])
   \<and> fst (all_packages self client) \<noteq> Inr (PyList [])"
  by (auto simp: all_packages_def rpc_def Let_def split: sum.splits error.splits prod.splits if_splits)

theorem all_packages_empty_witness:
  "fst (all_packages pypi (stub_rpc (Inr (PyDict [])))) = Inl (XmlRpcError ''Unable to get full list of packages'')
   \<and> fst (all_packages pypi (stub_rpc (Inr PyNone))) = Inl (XmlRpcError ''Unable to get full list of packages'')
   \<and> fst (all_packages pypi (stub_rpc (Inl (TimeoutError ''deadline'')))) = Inl (XmlRpcError ''Unable to get full list of packages'')
   \<and> fst (all_packages pypi (stub_rpc (Inr (PyDict [(''pkg-a'', 10), (''pkg-b'', 7)])))) = Inr (PyDict [(''pkg-a'', 10), (''pkg-b'', 7)])"
  using all_packages_empty [of "stub_rpc (Inr (PyDict []))" pypi]
        all_packages_empty [of "stub_rpc (Inr PyNone)" pypi]
        all_packages_empty [of "stub_rpc (Inl (TimeoutError ''deadline''))" pypi]
  by (simp add: stub_rpc_def all_packages_def rpc_def)

text \<open>
  Claim C4. When the remote answers the changelog call with \<open>None\<close> or with no rows,
  \<open>changed_packages\<close> returns the empty mapping, whereas \<open>all_packages\<close> raises \<open>XmlRpcError\<close>
  when the listing is answered so.
\<close>

theorem changed_packages_none:
  "client (xmlrpc_url self) ''changelog_since_serial'' (if last_serial \<noteq> 0 then [last_serial] else []) = Inr v
   \<Longrightarrow> v = PyNone \<or> v = PyList [] \<Longrightarrow>
     fst (changed_packages self client last_serial) = Inr Map.empty
     \<and> (client (xmlrpc_url self) ''list_packages_with_serial'' [] = Inr v
          \<longrightarrow> fst (all_packages self client) = Inl (XmlRpcError ''Unable to get full list of packages''))"
  by (auto simp: changed_packages_def all_packages_def rpc_def Let_def)

theorem changed_packages_none_witness:
  "stub_rpc (Inr PyNone) (xmlrpc_url pypi) ''changelog_since_serial'' [5] = Inr PyNone
   \<and> fst (changed_packages pypi (stub_rpc (Inr PyNone)) 5) = Inr Map.empty
   \<and> fst (all_packages pypi (stub_rpc (Inr PyNone))) = Inl (XmlRpcError ''Unable to get full list of packages'')"
  using changed_packages_none [of "stub_rpc (Inr PyNone)" pypi 5 PyNone]
  by (simp add: stub_rpc_def)

text \<open>
  Claim C2, amended. \<open>changed_packages\<close> maps every package that has a row with a positive
  serial to the maximum serial of its rows, and leaves out a package whose rows all have a
  serial of 0 or less. The mapping is the same for every order of the rows, and it is
  unchanged by further rows that each have a smaller serial than a row already there for
  the same package.
\<close>

theorem changed_packages_max_positive_serial:
  assumes "client (xmlrpc_url self) ''changelog_since_serial'' (if last_serial \<noteq> 0 then [last_serial] else [])
             = Inr (PyList rows)"
    and "client' (xmlrpc_url self) ''changelog_since_serial'' (if last_serial \<noteq> 0 then [last_serial] else [])
             = Inr (PyList rows')"
  shows "fst (changed_packages self client last_serial) = Inr (max_positive_serial_by_package rows)
       \<and> (mset rows' = mset rows \<longrightarrow>
            fst (changed_packages self client' last_serial) = fst (changed_packages self client last_serial))
       \<and> ((\<exists>extra. mset rows' = mset rows + mset extra
             \<and> (\<forall>(package, version, time, action, serial) \<in> set extra.
                  \<exists>(package', version', time', action', serial') \<in> set rows.
                    package' = package \<and> serial < serial')) \<longrightarrow>
            fst (changed_packages self client' last_serial) = fst (changed_packages self client last_serial))"
proof -
  have r: "fst (changed_packages self c last_serial) = Inr (max_positive_serial_by_package rs)"
    if "c (xmlrpc_url self) ''changelog_since_serial'' (if last_serial \<noteq> 0 then [last_serial] else [])
             = Inr (PyList rs)" for c rs
    using that by (simp add: changed_packages_def rpc_def Let_def changelog_loop_empty)
  have perm: "max_positive_serial_by_package rows' = max_positive_serial_by_package rows"
    if "mset rows' = mset rows"
    using max_positive_serial_dominated [of rows' rows "[]"] that by simp
  show ?thesis
    using r [of client rows, OF assms(1)] r [of client' rows', OF assms(2)] perm
      max_positive_serial_dominated [of rows' rows]
    by auto
qed

theorem changed_packages_max_positive_serial_witness:
  "fst (changed_packages pypi (stub_rpc (Inr (PyList changelog))) 5) = Inr [''pkg-a'' \<mapsto> 10, ''pkg-b'' \<mapsto> 6]
   \<and> fst (changed_packages pypi (stub_rpc (Inr (PyList (rev changelog)))) 5)
       = fst (changed_packages pypi (stub_rpc (Inr (PyList changelog))) 5)
   \<and> fst (changed_packages pypi (stub_rpc (Inr (PyList ((''pkg-a'', ''0.9'', 1700000100, ''new release'', 7) # changelog)))) 5)
       = fst (changed_packages pypi (stub_rpc (Inr (PyList changelog))) 5)"
proof -
  have a: "stub_rpc (Inr (PyList rs)) (xmlrpc_url pypi) ''changelog_since_serial'' (if (5::int) \<noteq> 0 then [5] else [])
             = Inr (PyList rs)" for rs
    by (simp add: stub_rpc_def)
  have m: "max_positive_serial_by_package changelog = [''pkg-a'' \<mapsto> 10, ''pkg-b'' \<mapsto> 6]"
    by (auto simp: max_positive_serial_by_package_def serials_of_def changelog_def fun_eq_iff)
  have e: "mset ((''pkg-a'', ''0.9'', 1700000100, ''new release'', 7) # changelog)
             = mset changelog + mset [(''pkg-a'', ''0.9'', 1700000100, ''new release'', 7)]"
    by simp
  have d: "\<forall>(package, version, time, action, serial) \<in> set [(''pkg-a'', ''0.9'', 1700000100, ''new release'', 7 :: int)].
             \<exists>(package', version', time', action', serial') \<in> set changelog. package' = package \<and> serial < serial'"
    by (simp add: changelog_def)
  note inst = changed_packages_max_positive_serial [where self = pypi and last_serial = 5
      and client = "stub_rpc (Inr (PyList changelog))" and rows = changelog]
  from inst [where client' = "stub_rpc (Inr (PyList (rev changelog)))" and rows' = "rev changelog", OF a a]
       inst [where client' = "stub_rpc (Inr (PyList ((''pkg-a'', ''0.9'', 1700000100, ''new release'', 7) # changelog)))"
         and rows' = "(''pkg-a'', ''0.9'', 1700000100, ''new release'', 7) # changelog", OF a a]
       e d
  show ?thesis by (auto simp: m)
qed

text \<open>
  The claim as the specification words it (every package of the changelog is mapped to
  the maximum of its serials) fails for a package whose only row has the serial 0: the
  mapping is empty.
\<close>

theorem changed_packages_drops_zero_serial:
  "fst (changed_packages pypi (stub_rpc (Inr (PyList [(''pkg-a'', ''1.0'', 1700000000, ''new release'', 0)]))) 0)
     = Inr Map.empty
   \<and> max_serial_by_package [(''pkg-a'', ''1.0'', 1700000000, ''new release'', 0)] ''pkg-a'' = Some 0"
  by (simp add: changed_packages_def rpc_def stub_rpc_def max_serial_by_package_def serials_of_def)

end
